theory Spec2Isabelle
  imports Main
begin

section \<open>Python values, exceptions and byte strings\<close>

text \<open>
  The two scripts are straight-line Python: five \<^verbatim>\<open>subprocess.run\<close> calls each, one
  \<^verbatim>\<open>open\<close> and one \<^verbatim>\<open>json.dump\<close> or \<^verbatim>\<open>json.load\<close>. Every statement can
  raise, and an exception that nothing catches ends the script where it is raised, so
  each statement is modelled as a function from the world to an optional exception and
  the world it leaves behind.

  A Python \<^verbatim>\<open>bytes\<close> value is a \<^typ>\<open>string\<close> (a list of 8-bit characters). A Python
  \<^verbatim>\<open>str\<close> is represented by its UTF-8 encoding, which is also what the operating system
  passes to a child process as an argument.
\<close>

datatype exn =
    FileNotFoundError
  | IsADirectoryError
  | JSONDecodeError
  | UnicodeDecodeError
  | KeyError string
  | TypeError
  | ValueError
  | IndexError
  | AttributeError

text \<open>What \<^verbatim>\<open>json.load\<close> can return. A number is kept as its text: the scripts never
  compute with one. \<open>JObj\<close> holds the items of a \<^verbatim>\<open>dict\<close> in insertion order; a dict has
  each key once, so \<^term>\<open>map_of\<close> is its lookup.\<close>

datatype json =
    JNull
  | JBool bool
  | JNum string
  | JStr string
  | JArr "json list"
  | JObj "(string \<times> json) list"

text \<open>\<^verbatim>\<open>bytes.strip()\<close> removes leading and trailing ASCII whitespace: space, tab,
  line feed, vertical tab, form feed and carriage return.\<close>

definition is_space :: "char \<Rightarrow> bool" where
  "is_space c = (c = CHR '' '' \<or> c = CHR 0x09 \<or> c = CHR 0x0A \<or> c = CHR 0x0B
                 \<or> c = CHR 0x0C \<or> c = CHR 0x0D)"

definition strip :: "string \<Rightarrow> string" where
  "strip b = rev (dropWhile is_space (rev (dropWhile is_space b)))"

text \<open>\<^verbatim>\<open>bytes.decode("utf-8")\<close> is strict: it raises \<^verbatim>\<open>UnicodeDecodeError\<close> unless the
  bytes are well-formed UTF-8 (no stray continuation byte, no overlong form, no
  surrogate, nothing above U+10FFFF).\<close>

definition cont :: "nat \<Rightarrow> bool" where
  "cont b = (0x80 \<le> b \<and> b \<le> 0xBF)"

fun utf8_valid :: "nat list \<Rightarrow> bool" where
  "utf8_valid [] = True"
| "utf8_valid (b0 # bs) =
     (if b0 < 0x80 then utf8_valid bs
      else if 0xC2 \<le> b0 \<and> b0 \<le> 0xDF then
        (case bs of b1 # r \<Rightarrow> cont b1 \<and> utf8_valid r | _ \<Rightarrow> False)
      else if 0xE0 \<le> b0 \<and> b0 \<le> 0xEF then
        (case bs of b1 # b2 # r \<Rightarrow>
           (if b0 = 0xE0 then 0xA0 \<le> b1 \<and> b1 \<le> 0xBF
            else if b0 = 0xED then 0x80 \<le> b1 \<and> b1 \<le> 0x9F
            else cont b1) \<and> cont b2 \<and> utf8_valid r
         | _ \<Rightarrow> False)
      else if 0xF0 \<le> b0 \<and> b0 \<le> 0xF4 then
        (case bs of b1 # b2 # b3 # r \<Rightarrow>
           (if b0 = 0xF0 then 0x90 \<le> b1 \<and> b1 \<le> 0xBF
            else if b0 = 0xF4 then 0x80 \<le> b1 \<and> b1 \<le> 0x8F
            else cont b1) \<and> cont b2 \<and> cont b3 \<and> utf8_valid r
         | _ \<Rightarrow> False)
      else False)"

definition decode_utf8 :: "string \<Rightarrow> exn + string" where
  "decode_utf8 b = (if utf8_valid (map of_char b) then Inr b else Inl UnicodeDecodeError)"

section \<open>The world: configuration store, files, child processes\<close>

text \<open>
  The live configuration store belongs to the external utility; the scripts reach it only
  by running the utility as a child process. A program on the search path is a function
  from the store and the argument vector to the new store, the exit status (negative when
  a signal ended the child) and the standard output. Which programs are installed is a partial map from names.
\<close>

type_synonym 's program = "'s \<Rightarrow> string list \<Rightarrow> 's \<times> int \<times> string"

type_synonym 's programs = "string \<Rightarrow> 's program option"

text \<open>The text of a file matters only through what \<^verbatim>\<open>json.load\<close> makes of it: either it
  raises (\<^verbatim>\<open>JSONDecodeError\<close>; the empty file that \<^verbatim>\<open>open(path, "w")\<close> leaves is such a
  text), or it returns a value. \<^verbatim>\<open>json.dump\<close> of a dict of strings writes a text that
  loads back as the value dumped.\<close>

datatype contents = Unparseable | Parses json

datatype node = Directory | File contents

record 's world =
  store :: 's
  files :: "string \<Rightarrow> node option"
  calls :: "string list list"

text \<open>\<^term>\<open>calls\<close> records, in order, the argument vector of every child process that
  was started.\<close>

record completed_process =
  returncode :: int
  stdout :: "string option"

text \<open>An argument of a child process must be a \<^verbatim>\<open>str\<close> without a NUL character.\<close>

fun fsconvert :: "json \<Rightarrow> exn + string" where
  "fsconvert (JStr s) = (if CHR 0x00 \<in> set s then Inl ValueError else Inr s)"
| "fsconvert _ = Inl TypeError"

fun fsconvert_all :: "json list \<Rightarrow> exn + string list" where
  "fsconvert_all [] = Inr []"
| "fsconvert_all (a # as) =
     (case fsconvert a of
        Inl e \<Rightarrow> Inl e
      | Inr s \<Rightarrow> (case fsconvert_all as of Inl e \<Rightarrow> Inl e | Inr ss \<Rightarrow> Inr (s # ss)))"

text \<open>\<^verbatim>\<open>subprocess.run(args, capture_output=...)\<close> with a list and without
  \<^verbatim>\<open>shell=True\<close>: the list is the argument vector of the child, passed as it is; no shell
  reads it. A program that is not installed raises \<^verbatim>\<open>FileNotFoundError\<close>. The exit status
  is returned, never checked (\<^verbatim>\<open>check=True\<close> is not given).\<close>

definition subprocess_run ::
  "'s programs \<Rightarrow> json list \<Rightarrow> bool \<Rightarrow> 's world \<Rightarrow> (exn + completed_process) \<times> 's world" where
  "subprocess_run progs args capture_output w =
     (case args of
        [] \<Rightarrow> (Inl IndexError, w)
      | _ # _ \<Rightarrow>
        (case fsconvert_all args of
           Inl e \<Rightarrow> (Inl e, w)
         | Inr argv \<Rightarrow>
           (case progs (hd argv) of
              None \<Rightarrow> (Inl FileNotFoundError, w)
            | Some run \<Rightarrow>
              (case run (store w) argv of
                 (s', rc, out) \<Rightarrow>
                   (Inr \<lparr>returncode = rc,
                         stdout = (if capture_output then Some out else None)\<rparr>,
                    w\<lparr>store := s', calls := calls w @ [argv]\<rparr>)))))"

text \<open>\<^verbatim>\<open>open(path, "w")\<close> creates or truncates the file; \<^verbatim>\<open>open(path, "r")\<close> needs it
  to exist. Both refuse a directory.\<close>

definition open_w :: "string \<Rightarrow> 's world \<Rightarrow> (exn + string) \<times> 's world" where
  "open_w path w =
     (case files w path of
        Some Directory \<Rightarrow> (Inl IsADirectoryError, w)
      | _ \<Rightarrow> (Inr path, w\<lparr>files := (files w)(path \<mapsto> File Unparseable)\<rparr>))"

definition open_r :: "string \<Rightarrow> 's world \<Rightarrow> exn + contents" where
  "open_r path w =
     (case files w path of
        None \<Rightarrow> Inl FileNotFoundError
      | Some Directory \<Rightarrow> Inl IsADirectoryError
      | Some (File t) \<Rightarrow> Inr t)"

definition json_dump :: "json \<Rightarrow> string \<Rightarrow> 's world \<Rightarrow> 's world" where
  "json_dump obj f w = w\<lparr>files := (files w)(f \<mapsto> File (Parses obj))\<rparr>"

definition json_load :: "contents \<Rightarrow> exn + json" where
  "json_load t = (case t of Unparseable \<Rightarrow> Inl JSONDecodeError | Parses j \<Rightarrow> Inr j)"

text \<open>\<^verbatim>\<open>d[k] = v\<close> on a dict: an existing key keeps its place, a new key goes last.\<close>

fun setitem :: "(string \<times> json) list \<Rightarrow> string \<Rightarrow> json \<Rightarrow> (string \<times> json) list" where
  "setitem [] k v = [(k, v)]"
| "setitem (p # ps) k v = (if fst p = k then (k, v) # ps else p # setitem ps k v)"

text \<open>\<^verbatim>\<open>settings[k]\<close> with a string \<open>k\<close>: \<^verbatim>\<open>KeyError\<close> on a dict without the key,
  \<^verbatim>\<open>TypeError\<close> on anything that is not a dict.\<close>

fun getitem :: "json \<Rightarrow> string \<Rightarrow> exn + json" where
  "getitem (JObj d) k = (case map_of d k of None \<Rightarrow> Inl (KeyError k) | Some v \<Rightarrow> Inr v)"
| "getitem _ k = Inl TypeError"

section \<open>The two scripts\<close>

text \<open>The schema argument of the terminal colour, the same literal in both scripts. Python
  reads \<^verbatim>\<open>\'\<close> inside a double-quoted literal as a single quote.\<close>

definition terminal_profile :: string where
  "terminal_profile =
     ''org.gnome.Terminal.Legacy.Profile:/org/gnome/terminal/legacy/profiles:/:$(gsettings get org.gnome.Terminal.ProfilesList default|awk -F' ' '{print $2}'|awk -F''
       @ [CHR 0x27, CHR 0x27] @ '' '{print $1}')/''"

subsection \<open>KDE_Kali_linux_get_current_settings_and_themes.py\<close>

text \<open>One read:
  \<^verbatim>\<open>subprocess.run(["gsettings", "get", schema, key], capture_output=True).stdout.strip().decode("utf-8")\<close>\<close>

definition read_setting ::
  "'s programs \<Rightarrow> string \<Rightarrow> string \<Rightarrow> 's world \<Rightarrow> (exn + string) \<times> 's world" where
  "read_setting progs schema key w =
     (case subprocess_run progs [JStr ''gsettings'', JStr ''get'', JStr schema, JStr key] True w of
        (Inl e, w') \<Rightarrow> (Inl e, w')
      | (Inr p, w') \<Rightarrow>
          (case stdout p of
             None \<Rightarrow> (Inl AttributeError, w')
           | Some out \<Rightarrow> (decode_utf8 (strip out), w')))"

text \<open>The script: \<^verbatim>\<open>settings = {}\<close>, five reads each stored under its key, then
  \<^verbatim>\<open>with open("settings.json", "w") as f: json.dump(settings, f)\<close>. The result is the
  exception that ended the run, if any, and the world the run leaves.\<close>

definition exporter :: "'s programs \<Rightarrow> 's world \<Rightarrow> exn option \<times> 's world" where
  "exporter progs w0 =
     (let settings0 = [] in
      case read_setting progs ''org.gnome.desktop.interface'' ''gtk-theme'' w0 of
        (Inl e, w1) \<Rightarrow> (Some e, w1)
      | (Inr gtk_theme, w1) \<Rightarrow>
     (let settings1 = setitem settings0 ''gtk_theme'' (JStr gtk_theme) in
      case read_setting progs ''org.gnome.desktop.interface'' ''icon-theme'' w1 of
        (Inl e, w2) \<Rightarrow> (Some e, w2)
      | (Inr icon_theme, w2) \<Rightarrow>
     (let settings2 = setitem settings1 ''icon_theme'' (JStr icon_theme) in
      case read_setting progs ''org.gnome.desktop.interface'' ''cursor-theme'' w2 of
        (Inl e, w3) \<Rightarrow> (Some e, w3)
      | (Inr cursor_theme, w3) \<Rightarrow>
     (let settings3 = setitem settings2 ''cursor_theme'' (JStr cursor_theme) in
      case read_setting progs ''org.gnome.desktop.background'' ''picture-uri'' w3 of
        (Inl e, w4) \<Rightarrow> (Some e, w4)
      | (Inr wallpaper, w4) \<Rightarrow>
     (let settings4 = setitem settings3 ''wallpaper'' (JStr wallpaper) in
      case read_setting progs terminal_profile ''foreground-color'' w4 of
        (Inl e, w5) \<Rightarrow> (Some e, w5)
      | (Inr color_scheme, w5) \<Rightarrow>
     (let settings5 = setitem settings4 ''color_scheme'' (JStr color_scheme) in
      case open_w ''settings.json'' w5 of
        (Inl e, w6) \<Rightarrow> (Some e, w6)
      | (Inr f, w6) \<Rightarrow> (None, json_dump (JObj settings5) f w6)))))))"

subsection \<open>KDE_Kali_reinstall_fav_settings_and_themes.py\<close>

text \<open>One write: \<^verbatim>\<open>subprocess.run(["gsettings", "set", schema, key, settings[name]])\<close>.
  Python evaluates the list first, so a missing key raises before any process starts.\<close>

definition write_setting ::
  "'s programs \<Rightarrow> json \<Rightarrow> string \<Rightarrow> string \<Rightarrow> string \<Rightarrow> 's world \<Rightarrow> exn option \<times> 's world" where
  "write_setting progs settings schema key name w =
     (case getitem settings name of
        Inl e \<Rightarrow> (Some e, w)
      | Inr v \<Rightarrow>
          (case subprocess_run progs
                  [JStr ''gsettings'', JStr ''set'', JStr schema, JStr key, v] False w of
             (Inl e, w') \<Rightarrow> (Some e, w')
           | (Inr p, w') \<Rightarrow> (None, w')))"

text \<open>The script: \<^verbatim>\<open>with open("settings.json", "r") as f: settings = json.load(f)\<close>, then
  the five writes, each reading its key from \<^verbatim>\<open>settings\<close> as it goes.\<close>

definition importer :: "'s programs \<Rightarrow> 's world \<Rightarrow> exn option \<times> 's world" where
  "importer progs w0 =
     (case open_r ''settings.json'' w0 of
        Inl e \<Rightarrow> (Some e, w0)
      | Inr f \<Rightarrow>
     (case json_load f of
        Inl e \<Rightarrow> (Some e, w0)
      | Inr settings \<Rightarrow>
     (case write_setting progs settings ''org.gnome.desktop.interface'' ''gtk-theme''
             ''gtk_theme'' w0 of
        (Some e, w1) \<Rightarrow> (Some e, w1)
      | (None, w1) \<Rightarrow>
     (case write_setting progs settings ''org.gnome.desktop.interface'' ''icon-theme''
             ''icon_theme'' w1 of
        (Some e, w2) \<Rightarrow> (Some e, w2)
      | (None, w2) \<Rightarrow>
     (case write_setting progs settings ''org.gnome.desktop.interface'' ''cursor-theme''
             ''cursor_theme'' w2 of
        (Some e, w3) \<Rightarrow> (Some e, w3)
      | (None, w3) \<Rightarrow>
     (case write_setting progs settings ''org.gnome.desktop.background'' ''picture-uri''
             ''wallpaper'' w3 of
        (Some e, w4) \<Rightarrow> (Some e, w4)
      | (None, w4) \<Rightarrow>
        write_setting progs settings terminal_profile ''foreground-color''
          ''color_scheme'' w4))))))"

section \<open>The settings table and a test double of the utility\<close>

text \<open>The five keys in the order both scripts handle them, and the schema and key each one
  is read from and written to.\<close>

definition settings_keys :: "string list" where
  "settings_keys = [''gtk_theme'', ''icon_theme'', ''cursor_theme'', ''wallpaper'', ''color_scheme'']"

definition target :: "string \<Rightarrow> string \<times> string" where
  "target name =
     (if name = ''gtk_theme'' then (''org.gnome.desktop.interface'', ''gtk-theme'')
      else if name = ''icon_theme'' then (''org.gnome.desktop.interface'', ''icon-theme'')
      else if name = ''cursor_theme'' then (''org.gnome.desktop.interface'', ''cursor-theme'')
      else if name = ''wallpaper'' then (''org.gnome.desktop.background'', ''picture-uri'')
      else (terminal_profile, ''foreground-color''))"

definition get_argv :: "string \<Rightarrow> string list" where
  "get_argv name = [''gsettings'', ''get'', fst (target name), snd (target name)]"

definition set_argv :: "string \<Rightarrow> string \<Rightarrow> string list" where
  "set_argv name v = [''gsettings'', ''set'', fst (target name), snd (target name), v]"

text \<open>A stand-in for the utility, to run the scripts on concrete systems: the store is an
  association list from (schema, key) to a value. \<^verbatim>\<open>get\<close> prints the value and a line
  feed; \<^verbatim>\<open>set\<close> replaces the value; both exit with status 1 and print nothing on a
  schema or key the store does not have.\<close>

type_synonym kv = "((string \<times> string) \<times> string) list"

fun kv_update :: "kv \<Rightarrow> string \<times> string \<Rightarrow> string \<Rightarrow> kv" where
  "kv_update [] k v = []"
| "kv_update (p # ps) k v = (if fst p = k then (k, v) # ps else p # kv_update ps k v)"

definition fake_gsettings :: "kv program" where
  "fake_gsettings s argv =
     (if length argv = 4 \<and> argv ! 1 = ''get'' then
        (case map_of s (argv ! 2, argv ! 3) of
           None \<Rightarrow> (s, 1, [])
         | Some v \<Rightarrow> (s, 0, v @ [CHR 0x0A]))
      else if length argv = 5 \<and> argv ! 1 = ''set'' then
        (case map_of s (argv ! 2, argv ! 3) of
           None \<Rightarrow> (s, 1, [])
         | Some old \<Rightarrow> (kv_update s (argv ! 2, argv ! 3) (argv ! 4), 0, []))
      else (s, 2, []))"

definition installed :: "kv programs" where
  "installed name = (if name = ''gsettings'' then Some fake_gsettings else None)"

definition not_installed :: "kv programs" where
  "not_installed name = None"

section \<open>The scripts as loops over the settings table\<close>

text \<open>Each script repeats one statement for the five keys. \<open>read_all\<close> and
  \<open>write_all\<close> are that statement run over a list of keys, stopping at the first
  exception; \<open>exporter_unroll\<close> and \<open>importer_unroll\<close> below show that the scripts are
  these loops over \<^term>\<open>settings_keys\<close>. \<open>outputs\<close>, \<open>exits\<close> and \<open>final_store\<close>
  are what a program prints, returns and leaves in the store when it is run on a list of
  argument vectors one after the other.\<close>

fun read_all ::
  "'s programs \<Rightarrow> string list \<Rightarrow> (string \<times> json) list \<Rightarrow> 's world
     \<Rightarrow> (exn + (string \<times> json) list) \<times> 's world" where
  "read_all progs [] settings w = (Inr settings, w)"
| "read_all progs (name # names) settings w =
     (case read_setting progs (fst (target name)) (snd (target name)) w of
        (Inl e, w') \<Rightarrow> (Inl e, w')
      | (Inr v, w') \<Rightarrow> read_all progs names (setitem settings name (JStr v)) w')"

fun write_all :: "'s programs \<Rightarrow> json \<Rightarrow> string list \<Rightarrow> 's world \<Rightarrow> exn option \<times> 's world" where
  "write_all progs settings [] w = (None, w)"
| "write_all progs settings (name # names) w =
     (case write_setting progs settings (fst (target name)) (snd (target name)) name w of
        (Some e, w') \<Rightarrow> (Some e, w')
      | (None, w') \<Rightarrow> write_all progs settings names w')"

fun outputs :: "'s program \<Rightarrow> 's \<Rightarrow> string list list \<Rightarrow> string list" where
  "outputs run s [] = []"
| "outputs run s (a # as) = snd (snd (run s a)) # outputs run (fst (run s a)) as"

fun exits :: "'s program \<Rightarrow> 's \<Rightarrow> string list list \<Rightarrow> int list" where
  "exits run s [] = []"
| "exits run s (a # as) = fst (snd (run s a)) # exits run (fst (run s a)) as"

definition final_store :: "'s program \<Rightarrow> 's \<Rightarrow> string list list \<Rightarrow> 's" where
  "final_store run s as = foldl (\<lambda>s a. fst (run s a)) s as"

definition stored :: "(string \<times> json) list \<Rightarrow> string \<Rightarrow> string" where
  "stored d name = (case map_of d name of Some (JStr v) \<Rightarrow> v | _ \<Rightarrow> [])"

definition has_setting :: "(string \<times> json) list \<Rightarrow> string \<Rightarrow> bool" where
  "has_setting d name =
     (case map_of d name of
        None \<Rightarrow> False
      | Some v \<Rightarrow> (case fsconvert v of Inl e \<Rightarrow> False | Inr s \<Rightarrow> True))"

definition complete_document :: "(string \<times> json) list \<Rightarrow> bool" where
  "complete_document d = list_all (has_setting d) settings_keys"

text \<open>The document of a store: each of the five keys with the stripped output of its read
  query, the queries run in order from store \<open>s\<close>.\<close>

definition decodable :: "string list \<Rightarrow> bool" where
  "decodable outs = list_all (\<lambda>b. utf8_valid (map of_char (strip b))) outs"

definition captured :: "'s program \<Rightarrow> 's \<Rightarrow> json" where
  "captured run s =
     JObj (zip settings_keys
             (map (\<lambda>b. JStr (strip b)) (outputs run s (map get_argv settings_keys))))"


text \<open>What the round trip needs from the utility at a store \<open>s\<close>, for each of the five
  settings: reading leaves the store as it is, what is read decodes as UTF-8, and writing
  the stripped output back leaves the store as it is.\<close>

definition round_trip_law :: "'s program \<Rightarrow> 's \<Rightarrow> bool" where
  "round_trip_law run s =
     list_all (\<lambda>name.
        fst (run s (get_argv name)) = s \<and>
        utf8_valid (map of_char (strip (snd (snd (run s (get_argv name)))))) \<and>
        fst (run s (set_argv name (strip (snd (snd (run s (get_argv name))))))) = s)
       settings_keys"

subsection \<open>Concrete systems\<close>

definition desk :: kv where
  "desk = [((''org.gnome.desktop.interface'', ''gtk-theme''), ''Breeze-Dark''),
           ((''org.gnome.desktop.interface'', ''cursor-theme''), ''Breeze''),
           ((''org.gnome.desktop.background'', ''picture-uri''), ''file:///old.png''),
           ((terminal_profile, ''foreground-color''), ''#000000'')]"

definition scenario :: "(string \<times> json) list" where
  "scenario = [(''gtk_theme'', JStr ''Adwaita''), (''icon_theme'', JStr ''Papirus''),
               (''cursor_theme'', JStr ''Adwaita''), (''wallpaper'', JStr ''file:///wall.png''),
               (''color_scheme'', JStr ''#FFFFFF'')]"

definition sys_fresh :: "kv world" where
  "sys_fresh = \<lparr>store = desk, files = Map.empty, calls = []\<rparr>"

definition sys_saved :: "kv world" where
  "sys_saved = \<lparr>store = desk,
                 files = [''settings.json'' \<mapsto> File (Parses (JObj scenario))], calls = []\<rparr>"

definition sys_garbled :: "kv world" where
  "sys_garbled = \<lparr>store = desk, files = [''settings.json'' \<mapsto> File Unparseable], calls = []\<rparr>"

definition partial_doc :: "(string \<times> json) list" where
  "partial_doc = [(''gtk_theme'', JStr ''Adwaita''), (''cursor_theme'', JStr ''Adwaita''),
                  (''wallpaper'', JStr ''file:///wall.png''), (''color_scheme'', JStr ''#FFFFFF'')]"

definition sys_partial :: "kv world" where
  "sys_partial = \<lparr>store = desk,
                   files = [''settings.json'' \<mapsto> File (Parses (JObj partial_doc))], calls = []\<rparr>"

definition desk_b :: kv where
  "desk_b = [((''org.gnome.Terminal.ProfilesList'', ''default''), ''b1dcc9dd''),
             ((''org.gnome.Terminal.Legacy.Profile:/org/gnome/terminal/legacy/profiles:/:b1dcc9dd/'',
               ''foreground-color''), ''#AAAAAA'')]"

definition sys_profile :: "kv world" where
  "sys_profile = \<lparr>store = desk_b,
                   files = [''settings.json'' \<mapsto> File (Parses (JObj scenario))], calls = []\<rparr>"


section \<open>One statement, then the loops\<close>

lemma exporter_unroll:
  "exporter progs w =
     (case read_all progs settings_keys [] w of
        (Inl e, w') \<Rightarrow> (Some e, w')
      | (Inr settings, w') \<Rightarrow>
          (case open_w ''settings.json'' w' of
             (Inl e, w'') \<Rightarrow> (Some e, w'')
           | (Inr f, w'') \<Rightarrow> (None, json_dump (JObj settings) f w'')))"
  by (simp add: exporter_def settings_keys_def target_def split: prod.splits sum.splits)

lemma importer_unroll:
  "importer progs w =
     (case open_r ''settings.json'' w of
        Inl e \<Rightarrow> (Some e, w)
      | Inr f \<Rightarrow>
          (case json_load f of
             Inl e \<Rightarrow> (Some e, w)
           | Inr settings \<Rightarrow> write_all progs settings settings_keys w))"
  by (simp add: importer_def settings_keys_def target_def split: prod.splits sum.splits option.splits)

lemma target_schema_no_nul: "CHR 0x00 \<notin> set (fst (target name))"
  by (simp add: target_def terminal_profile_def)

lemma target_key_no_nul: "CHR 0x00 \<notin> set (snd (target name))"
  by (simp add: target_def)

lemma read_setting_run:
  assumes "progs ''gsettings'' = Some run"
    and "CHR 0x00 \<notin> set schema" and "CHR 0x00 \<notin> set key"
  shows "read_setting progs schema key w =
           (decode_utf8 (strip (snd (snd (run (store w) [''gsettings'', ''get'', schema, key])))),
            w\<lparr>store := fst (run (store w) [''gsettings'', ''get'', schema, key]),
              calls := calls w @ [[''gsettings'', ''get'', schema, key]]\<rparr>)"
  using assms by (simp add: read_setting_def subprocess_run_def split: prod.splits)

lemma read_setting_missing:
  assumes "progs ''gsettings'' = None"
  shows "\<exists>e. read_setting progs schema key w = (Inl e, w)"
  using assms by (simp add: read_setting_def subprocess_run_def split: prod.splits sum.splits)

lemma write_setting_missing:
  assumes "progs ''gsettings'' = None"
  shows "\<exists>e. write_setting progs settings schema key name w = (Some e, w)"
  using assms by (simp add: write_setting_def subprocess_run_def split: prod.splits sum.splits)

lemma read_setting_world:
  assumes "CHR 0x00 \<notin> set schema" and "CHR 0x00 \<notin> set key"
  shows "snd (read_setting progs schema key w) =
           (case progs ''gsettings'' of
              None \<Rightarrow> w
            | Some run \<Rightarrow>
                w\<lparr>store := fst (run (store w) [''gsettings'', ''get'', schema, key]),
                  calls := calls w @ [[''gsettings'', ''get'', schema, key]]\<rparr>)"
  using assms
  by (simp add: read_setting_def subprocess_run_def split: prod.splits option.splits sum.splits)

lemma read_target_run:
  assumes "progs ''gsettings'' = Some run"
  shows "read_setting progs (fst (target name)) (snd (target name)) w =
           (decode_utf8 (strip (snd (snd (run (store w) (get_argv name))))),
            w\<lparr>store := fst (run (store w) (get_argv name)),
              calls := calls w @ [get_argv name]\<rparr>)"
  using assms by (simp add: read_setting_run target_schema_no_nul target_key_no_nul get_argv_def)

lemma read_target_world:
  "snd (read_setting progs (fst (target name)) (snd (target name)) w) =
     (case progs ''gsettings'' of
        None \<Rightarrow> w
      | Some run \<Rightarrow> w\<lparr>store := fst (run (store w) (get_argv name)),
                       calls := calls w @ [get_argv name]\<rparr>)"
  by (simp add: read_setting_world target_schema_no_nul target_key_no_nul get_argv_def
        split: option.splits)

lemma read_all_ok:
  assumes "progs ''gsettings'' = Some run"
    and "list_all (\<lambda>b. utf8_valid (map of_char (strip b)))
           (outputs run (store w) (map get_argv names))"
  shows "read_all progs names settings w =
           (Inr (foldl (\<lambda>d (n, b). setitem d n (JStr (strip b))) settings
                   (zip names (outputs run (store w) (map get_argv names)))),
            w\<lparr>store := final_store run (store w) (map get_argv names),
              calls := calls w @ map get_argv names\<rparr>)"
  using assms(2)
proof (induction names arbitrary: settings w)
  case Nil
  show ?case by (simp add: final_store_def)
next
  case (Cons name names)
  let ?a = "get_argv name"
  let ?w1 = "w\<lparr>store := fst (run (store w) ?a), calls := calls w @ [?a]\<rparr>"
  have valid: "utf8_valid (map of_char (strip (snd (snd (run (store w) ?a)))))"
    using Cons.prems by simp
  have step: "read_setting progs (fst (target name)) (snd (target name)) w =
                (Inr (strip (snd (snd (run (store w) ?a)))), ?w1)"
    using assms(1) valid by (simp add: read_target_run decode_utf8_def)
  have rest: "list_all (\<lambda>b. utf8_valid (map of_char (strip b)))
                (outputs run (store ?w1) (map get_argv names))"
    using Cons.prems by simp
  show ?case
    using Cons.IH [OF rest] step by (simp add: final_store_def)
qed

lemma read_all_files: "files (snd (read_all progs names settings w)) = files w"
proof (induction names arbitrary: settings w)
  case Nil
  show ?case by simp
next
  case (Cons name names)
  have w1: "files (snd (read_setting progs (fst (target name)) (snd (target name)) w)) = files w"
    by (simp add: read_target_world split: option.splits)
  show ?case
  proof (cases "read_setting progs (fst (target name)) (snd (target name)) w")
    case (Pair r w')
    then show ?thesis using w1 Cons.IH [of _ w'] by (cases r) simp_all
  qed
qed

lemma read_all_calls:
  "\<exists>n. calls (snd (read_all progs names settings w)) = calls w @ take n (map get_argv names)"
proof (induction names arbitrary: settings w)
  case Nil
  show ?case by simp
next
  case (Cons name names)
  show ?case
  proof (cases "read_setting progs (fst (target name)) (snd (target name)) w")
    case (Pair r w')
    have w': "w' = (case progs ''gsettings'' of
                None \<Rightarrow> w
              | Some run \<Rightarrow> w\<lparr>store := fst (run (store w) (get_argv name)),
                               calls := calls w @ [get_argv name]\<rparr>)"
      using read_target_world [of progs name w] Pair by simp
    show ?thesis
    proof (cases "progs ''gsettings''")
      case None
      obtain e where "read_setting progs (fst (target name)) (snd (target name)) w = (Inl e, w)"
        using read_setting_missing [where progs = progs, OF None] by blast
      then have "calls (snd (read_all progs (name # names) settings w))
                   = calls w @ take 0 (map get_argv (name # names))"
        by simp
      then show ?thesis by blast
    next
      case (Some run)
      then have cw': "calls w' = calls w @ [get_argv name]" using w' by simp
      show ?thesis
      proof (cases r)
        case (Inl e)
        then have "calls (snd (read_all progs (name # names) settings w))
                     = calls w @ take 1 (map get_argv (name # names))"
          using Pair cw' by simp
        then show ?thesis by blast
      next
        case (Inr v)
        obtain n where n: "calls (snd (read_all progs names (setitem settings name (JStr v)) w'))
                             = calls w' @ take n (map get_argv names)"
          using Cons.IH by blast
        have "calls (snd (read_all progs (name # names) settings w))
                = calls w @ take (Suc n) (map get_argv (name # names))"
          using Pair Inr n cw' by simp
        then show ?thesis by blast
      qed
    qed
  qed
qed

lemma setitem_fresh: "k \<notin> set (map fst d) \<Longrightarrow> setitem d k v = d @ [(k, v)]"
  by (induction d) auto

lemma read_all_keys:
  assumes "read_all progs names settings w = (Inr d, w')"
    and "distinct (map fst settings @ names)"
  shows "map fst d = map fst settings @ names"
  using assms
proof (induction names arbitrary: settings w)
  case Nil
  then show ?case by simp
next
  case (Cons name names)
  obtain r w1 where step: "read_setting progs (fst (target name)) (snd (target name)) w = (r, w1)"
    by (cases "read_setting progs (fst (target name)) (snd (target name)) w")
  show ?case
  proof (cases r)
    case (Inl e)
    then show ?thesis using Cons.prems(1) step by simp
  next
    case (Inr v)
    have fresh: "setitem settings name (JStr v) = settings @ [(name, JStr v)]"
      using Cons.prems(2) by (simp add: setitem_fresh)
    have "read_all progs names (settings @ [(name, JStr v)]) w1 = (Inr d, w')"
      using Cons.prems(1) step Inr fresh by simp
    moreover have "distinct (map fst (settings @ [(name, JStr v)]) @ names)"
      using Cons.prems(2) by simp
    ultimately have "map fst d = map fst (settings @ [(name, JStr v)]) @ names"
      by (rule Cons.IH)
    then show ?thesis by simp
  qed
qed

lemma read_all_store:
  assumes "\<And>run. progs ''gsettings'' = Some run \<Longrightarrow>
             list_all (\<lambda>name. fst (run (store w) (get_argv name)) = store w) names"
  shows "store (snd (read_all progs names settings w)) = store w"
  using assms
proof (induction names arbitrary: settings w)
  case Nil
  show ?case by simp
next
  case (Cons name names)
  obtain r w1 where step: "read_setting progs (fst (target name)) (snd (target name)) w = (r, w1)"
    by (cases "read_setting progs (fst (target name)) (snd (target name)) w")
  have w1: "w1 = (case progs ''gsettings'' of
              None \<Rightarrow> w
            | Some run \<Rightarrow> w\<lparr>store := fst (run (store w) (get_argv name)),
                             calls := calls w @ [get_argv name]\<rparr>)"
    using read_target_world [of progs name w] step by simp
  have same: "store w1 = store w"
    using w1 Cons.prems by (cases "progs ''gsettings''") simp_all
  show ?case
  proof (cases r)
    case (Inl e)
    then show ?thesis using step same by simp
  next
    case (Inr v)
    have "store (snd (read_all progs names (setitem settings name (JStr v)) w1)) = store w1"
      using Cons.prems same by (intro Cons.IH) simp
    then show ?thesis using step Inr same by simp
  qed
qed

lemma write_target_eq:
  "write_setting progs (JObj d) (fst (target name)) (snd (target name)) name w =
     (case map_of d name of
        None \<Rightarrow> (Some (KeyError name), w)
      | Some v \<Rightarrow>
          (case fsconvert v of
             Inl e \<Rightarrow> (Some e, w)
           | Inr s \<Rightarrow>
               (case progs ''gsettings'' of
                  None \<Rightarrow> (Some FileNotFoundError, w)
                | Some run \<Rightarrow>
                    (None, w\<lparr>store := fst (run (store w) (set_argv name s)),
                             calls := calls w @ [set_argv name s]\<rparr>))))"
  using target_schema_no_nul [of name] target_key_no_nul [of name]
  by (simp add: write_setting_def subprocess_run_def set_argv_def
        split: option.splits sum.splits prod.splits)

lemma has_setting_stored:
  "has_setting d name \<Longrightarrow> \<exists>v. map_of d name = Some v \<and> fsconvert v = Inr (stored d name)"
  by (auto simp: has_setting_def stored_def split: option.splits sum.splits json.splits if_splits)

lemma write_all_ok:
  assumes "progs ''gsettings'' = Some run"
    and "list_all (has_setting d) names"
  shows "write_all progs (JObj d) names w =
           (None, w\<lparr>store := final_store run (store w) (map (\<lambda>n. set_argv n (stored d n)) names),
                    calls := calls w @ map (\<lambda>n. set_argv n (stored d n)) names\<rparr>)"
  using assms(2)
proof (induction names arbitrary: w)
  case Nil
  show ?case by (simp add: final_store_def)
next
  case (Cons name names)
  obtain v where v: "map_of d name = Some v" "fsconvert v = Inr (stored d name)"
    using Cons.prems has_setting_stored by fastforce
  have step: "write_setting progs (JObj d) (fst (target name)) (snd (target name)) name w =
                (None, w\<lparr>store := fst (run (store w) (set_argv name (stored d name))),
                         calls := calls w @ [set_argv name (stored d name)]\<rparr>)"
    using assms(1) v by (simp add: write_target_eq)
  have rest: "list_all (has_setting d) names" using Cons.prems by simp
  show ?case using Cons.IH [OF rest] step by (simp add: final_store_def)
qed

lemma write_all_missing:
  assumes "progs ''gsettings'' = Some run"
    and "list_all (\<lambda>n. map_of d n = None \<or> has_setting d n) names"
    and "list_ex (\<lambda>n. map_of d n = None) names"
  shows "write_all progs (JObj d) names w =
           (Some (KeyError (hd (dropWhile (\<lambda>n. map_of d n \<noteq> None) names))),
            w\<lparr>store := final_store run (store w)
                         (map (\<lambda>n. set_argv n (stored d n))
                            (takeWhile (\<lambda>n. map_of d n \<noteq> None) names)),
              calls := calls w @ map (\<lambda>n. set_argv n (stored d n))
                         (takeWhile (\<lambda>n. map_of d n \<noteq> None) names)\<rparr>)"
  using assms(2,3)
proof (induction names arbitrary: w)
  case Nil
  then show ?case by simp
next
  case (Cons name names)
  show ?case
  proof (cases "map_of d name")
    case None
    then show ?thesis by (simp add: write_target_eq final_store_def)
  next
    case (Some v0)
    then have "has_setting d name" using Cons.prems(1) by simp
    then obtain v where v: "map_of d name = Some v" "fsconvert v = Inr (stored d name)"
      using has_setting_stored by blast
    have step: "write_setting progs (JObj d) (fst (target name)) (snd (target name)) name w =
                  (None, w\<lparr>store := fst (run (store w) (set_argv name (stored d name))),
                           calls := calls w @ [set_argv name (stored d name)]\<rparr>)"
      using assms(1) v by (simp add: write_target_eq)
    have rest: "list_all (\<lambda>n. map_of d n = None \<or> has_setting d n) names"
      "list_ex (\<lambda>n. map_of d n = None) names"
      using Cons.prems Some by simp_all
    show ?thesis using Cons.IH [OF rest] step Some by (simp add: final_store_def)
  qed
qed

lemma exporter_not_installed:
  assumes "progs ''gsettings'' = None"
  shows "exporter progs w = (Some FileNotFoundError, w)"
  using assms
  by (simp add: exporter_def read_setting_def subprocess_run_def)

lemma write_all_not_installed:
  assumes "progs ''gsettings'' = None"
  shows "snd (write_all progs settings names w) = w"
proof (cases names)
  case Nil
  then show ?thesis by simp
next
  case (Cons name rest)
  obtain e where "write_setting progs settings (fst (target name)) (snd (target name)) name w
                    = (Some e, w)"
    using write_setting_missing [where progs = progs, OF assms] by blast
  then show ?thesis using Cons by simp
qed

lemma importer_not_installed:
  assumes "progs ''gsettings'' = None"
  shows "snd (importer progs w) = w"
  using write_all_not_installed [where progs = progs, OF assms]
  by (simp add: importer_unroll split: sum.splits)

lemma exporter_run:
  assumes "progs ''gsettings'' = Some run"
    and "list_all (\<lambda>b. utf8_valid (map of_char (strip b)))
           (outputs run (store w) (map get_argv settings_keys))"
  shows "exporter progs w =
           (if files w ''settings.json'' = Some Directory
            then (Some IsADirectoryError,
                  w\<lparr>store := final_store run (store w) (map get_argv settings_keys),
                    calls := calls w @ map get_argv settings_keys\<rparr>)
            else (None,
                  w\<lparr>store := final_store run (store w) (map get_argv settings_keys),
                    calls := calls w @ map get_argv settings_keys,
                    files := (files w)(''settings.json'' \<mapsto> File (Parses (JObj
                      (zip settings_keys (map (\<lambda>b. JStr (strip b))
                         (outputs run (store w) (map get_argv settings_keys)))))))\<rparr>))"
proof -
  have d: "foldl (\<lambda>d (n, b). setitem d n (JStr (strip b))) []
             (zip settings_keys (outputs run (store w) (map get_argv settings_keys)))
           = zip settings_keys (map (\<lambda>b. JStr (strip b))
               (outputs run (store w) (map get_argv settings_keys)))"
    by (simp add: settings_keys_def)
  show ?thesis
    unfolding exporter_unroll read_all_ok [where progs = progs and run = run, OF assms] d
    by (simp add: open_w_def json_dump_def split: option.splits node.splits)
qed

lemma read_all_valid:
  assumes "progs ''gsettings'' = Some run"
    and "read_all progs names settings w = (Inr d, w')"
  shows "list_all (\<lambda>b. utf8_valid (map of_char (strip b)))
           (outputs run (store w) (map get_argv names))"
  using assms(2)
proof (induction names arbitrary: settings w)
  case Nil
  show ?case by simp
next
  case (Cons name names)
  let ?out = "strip (snd (snd (run (store w) (get_argv name))))"
  let ?w1 = "w\<lparr>store := fst (run (store w) (get_argv name)),
               calls := calls w @ [get_argv name]\<rparr>"
  have step: "read_setting progs (fst (target name)) (snd (target name)) w
                = (decode_utf8 ?out, ?w1)"
    using assms(1) by (simp add: read_target_run)
  show ?case
  proof (cases "utf8_valid (map of_char ?out)")
    case False
    then show ?thesis using Cons.prems step by (simp add: decode_utf8_def)
  next
    case True
    then have "read_all progs names (setitem settings name (JStr ?out)) ?w1 = (Inr d, w')"
      using Cons.prems step by (simp add: decode_utf8_def)
    then have "list_all (\<lambda>b. utf8_valid (map of_char (strip b)))
                 (outputs run (store ?w1) (map get_argv names))"
      by (rule Cons.IH)
    then show ?thesis using True by simp
  qed
qed

lemma exporter_failed:
  assumes "fst (exporter progs w) = Some e"
  shows "files (snd (exporter progs w)) = files w"
proof (cases "read_all progs settings_keys [] w")
  case (Pair r w')
  have fw': "files w' = files w"
    using read_all_files [of progs settings_keys "[]" w] Pair by simp
  show ?thesis
  proof (cases r)
    case (Inl e')
    then show ?thesis using Pair fw' by (simp add: exporter_unroll)
  next
    case (Inr d)
    then show ?thesis
      using Pair fw' assms
      by (simp add: exporter_unroll open_w_def split: option.splits node.splits)
  qed
qed

lemma exporter_succeeded:
  assumes "fst (exporter progs w) = None"
  shows "\<exists>run. progs ''gsettings'' = Some run \<and>
           decodable (outputs run (store w) (map get_argv settings_keys)) \<and>
           files w ''settings.json'' \<noteq> Some Directory"
proof (cases "progs ''gsettings''")
  case None
  then show ?thesis using assms by (simp add: exporter_not_installed)
next
  case (Some run)
  obtain r w' where rw: "read_all progs settings_keys [] w = (r, w')"
    by (cases "read_all progs settings_keys [] w")
  have fw': "files w' = files w"
    using read_all_files [of progs settings_keys "[]" w] rw by simp
  show ?thesis
  proof (cases r)
    case (Inl e)
    then show ?thesis using assms rw by (simp add: exporter_unroll)
  next
    case (Inr d)
    have valid: "decodable (outputs run (store w) (map get_argv settings_keys))"
      unfolding decodable_def
      using read_all_valid [where progs = progs and run = run, OF Some] rw Inr by blast
    have "files w ''settings.json'' \<noteq> Some Directory"
      using assms rw Inr fw' by (auto simp: exporter_unroll open_w_def)
    then show ?thesis using Some valid by blast
  qed
qed

lemma installed_gsettings: "installed ''gsettings'' = Some fake_gsettings"
  by (simp add: installed_def)

lemma desk_outputs:
  "outputs fake_gsettings desk (map get_argv settings_keys) =
     [''Breeze-Dark'' @ [CHR 0x0A], [], ''Breeze'' @ [CHR 0x0A], ''file:///old.png'' @ [CHR 0x0A],
      ''#000000'' @ [CHR 0x0A]]"
  by (simp add: settings_keys_def get_argv_def target_def fake_gsettings_def desk_def)

lemma desk_exits:
  "exits fake_gsettings desk (map get_argv settings_keys) = [0, 1, 0, 0, 0]"
  by (simp add: settings_keys_def get_argv_def target_def fake_gsettings_def desk_def)

lemma desk_valid:
  "list_all (\<lambda>b. utf8_valid (map of_char (strip b)))
     (outputs fake_gsettings desk (map get_argv settings_keys))"
  unfolding desk_outputs by (simp add: strip_def is_space_def)

lemma importer_document:
  assumes "files w ''settings.json'' = Some (File (Parses (JObj d)))"
  shows "importer progs w = write_all progs (JObj d) settings_keys w"
  using assms by (simp add: importer_unroll open_r_def json_load_def)

lemma scenario_complete: "complete_document scenario"
  by (simp add: complete_document_def settings_keys_def has_setting_def scenario_def)

lemma scenario_writes:
  "map (\<lambda>n. set_argv n (stored scenario n)) settings_keys =
     [[''gsettings'', ''set'', ''org.gnome.desktop.interface'', ''gtk-theme'', ''Adwaita''],
      [''gsettings'', ''set'', ''org.gnome.desktop.interface'', ''icon-theme'', ''Papirus''],
      [''gsettings'', ''set'', ''org.gnome.desktop.interface'', ''cursor-theme'', ''Adwaita''],
      [''gsettings'', ''set'', ''org.gnome.desktop.background'', ''picture-uri'', ''file:///wall.png''],
      [''gsettings'', ''set'', terminal_profile, ''foreground-color'', ''#FFFFFF'']]"
  by (simp add: settings_keys_def set_argv_def target_def stored_def scenario_def)

lemma scenario_exits:
  "exits fake_gsettings desk (map (\<lambda>n. set_argv n (stored scenario n)) settings_keys)
     = [0, 1, 0, 0, 0]"
  unfolding scenario_writes by (simp add: fake_gsettings_def desk_def)

lemma scenario_final_store:
  "final_store fake_gsettings desk (map (\<lambda>n. set_argv n (stored scenario n)) settings_keys) =
     [((''org.gnome.desktop.interface'', ''gtk-theme''), ''Adwaita''),
      ((''org.gnome.desktop.interface'', ''cursor-theme''), ''Adwaita''),
      ((''org.gnome.desktop.background'', ''picture-uri''), ''file:///wall.png''),
      ((terminal_profile, ''foreground-color''), ''#FFFFFF'')]"
  unfolding scenario_writes by (simp add: final_store_def fake_gsettings_def desk_def)

lemma get_argv_is_get:
  "list_all (\<lambda>c. length c = 4 \<and> c ! 0 = ''gsettings'' \<and> c ! 1 = ''get'') (map get_argv names)"
  by (induction names) (simp_all add: get_argv_def)

lemma list_all_take: "list_all P xs \<Longrightarrow> list_all P (take n xs)"
  by (auto simp: list_all_iff dest: in_set_takeD)

lemma exporter_calls:
  "\<exists>n. calls (snd (exporter progs w)) = calls w @ take n (map get_argv settings_keys)"
proof -
  obtain n where n: "calls (snd (read_all progs settings_keys [] w))
                       = calls w @ take n (map get_argv settings_keys)"
    using read_all_calls by blast
  have "calls (snd (exporter progs w)) = calls (snd (read_all progs settings_keys [] w))"
    by (simp add: exporter_unroll open_w_def json_dump_def
          split: prod.splits sum.splits option.splits node.splits)
  then show ?thesis using n by auto
qed

lemma exporter_store:
  "store (snd (exporter progs w)) = store (snd (read_all progs settings_keys [] w))"
  by (simp add: exporter_unroll open_w_def json_dump_def
        split: prod.splits sum.splits option.splits node.splits)

lemma reads_leave_store:
  assumes "list_all (\<lambda>name. fst (run s (get_argv name)) = s) names"
  shows "final_store run s (map get_argv names) = s \<and>
         outputs run s (map get_argv names) = map (\<lambda>name. snd (snd (run s (get_argv name)))) names"
  using assms by (induction names) (simp_all add: final_store_def)

lemma write_all_noop:
  assumes "progs ''gsettings'' = Some run"
    and "list_all (\<lambda>name. \<forall>v. map_of d name = Some (JStr v) \<longrightarrow>
                      fst (run (store w) (set_argv name v)) = store w) names"
  shows "store (snd (write_all progs (JObj d) names w)) = store w"
  using assms(2)
proof (induction names arbitrary: w)
  case Nil
  show ?case by simp
next
  case (Cons name names)
  obtain r w1 where step:
    "write_setting progs (JObj d) (fst (target name)) (snd (target name)) name w = (r, w1)"
    by (cases "write_setting progs (JObj d) (fst (target name)) (snd (target name)) name w")
  have same: "store w1 = store w"
  proof (cases "map_of d name")
    case None
    then show ?thesis using step by (simp add: write_target_eq)
  next
    case (Some v)
    show ?thesis
    proof (cases "fsconvert v")
      case (Inl e)
      then show ?thesis using step Some by (simp add: write_target_eq)
    next
      case (Inr a)
      then have "v = JStr a" by (cases v) (simp_all split: if_splits)
      then have "fst (run (store w) (set_argv name a)) = store w"
        using Cons.prems Some by simp
      then show ?thesis using step Some Inr assms(1) by (auto simp: write_target_eq)
    qed
  qed
  show ?case
  proof (cases r)
    case None
    have "store (snd (write_all progs (JObj d) names w1)) = store w1"
      using Cons.prems same by (intro Cons.IH) simp
    then show ?thesis using step None same by simp
  next
    case (Some e)
    then show ?thesis using step same by simp
  qed
qed

lemma importer_no_file:
  assumes "files w ''settings.json'' = Some Directory"
  shows "importer progs w = (Some IsADirectoryError, w)"
  using assms by (simp add: importer_def open_r_def)

lemma desk_law: "round_trip_law fake_gsettings desk"
  by (simp add: round_trip_law_def settings_keys_def get_argv_def set_argv_def target_def
        fake_gsettings_def desk_def strip_def is_space_def)


section \<open>The claims\<close>

text \<open>C1 (round trip). Let the utility, when installed, satisfy \<^term>\<open>round_trip_law\<close> at
  the current store. Then running the exporter and, on the world it leaves, the importer
  ends with the configuration store exactly as it was before the export. This holds
  whatever \<^verbatim>\<open>settings.json\<close> was before, and also when the utility is not installed or the
  file cannot be written.\<close>

theorem export_import_round_trip:
  assumes "\<And>run. progs ''gsettings'' = Some run \<Longrightarrow> round_trip_law run (store w)"
  shows "store (snd (importer progs (snd (exporter progs w)))) = store w"
proof (cases "progs ''gsettings''")
  case None
  then show ?thesis by (simp add: exporter_not_installed importer_not_installed)
next
  case (Some run)
  let ?s = "store w"
  let ?out = "\<lambda>name. strip (snd (snd (run ?s (get_argv name))))"
  have law: "round_trip_law run ?s" using assms Some by simp
  have ro: "list_all (\<lambda>name. fst (run ?s (get_argv name)) = ?s) settings_keys"
    using law by (simp add: round_trip_law_def list_all_iff)
  have outs: "outputs run ?s (map get_argv settings_keys)
                = map (\<lambda>name. snd (snd (run ?s (get_argv name)))) settings_keys"
    and fin: "final_store run ?s (map get_argv settings_keys) = ?s"
    using reads_leave_store [where run = run and s = "store w", OF ro] by simp_all
  have valid: "list_all (\<lambda>b. utf8_valid (map of_char (strip b)))
                 (outputs run ?s (map get_argv settings_keys))"
    using law unfolding outs by (simp add: round_trip_law_def list_all_iff)
  define d where "d = zip settings_keys (map (\<lambda>b. JStr (strip b))
                        (outputs run ?s (map get_argv settings_keys)))"
  have d: "d = map (\<lambda>name. (name, JStr (?out name))) settings_keys"
    unfolding d_def outs by (simp add: settings_keys_def)
  have ex: "exporter progs w =
              (if files w ''settings.json'' = Some Directory
               then (Some IsADirectoryError,
                     w\<lparr>store := ?s, calls := calls w @ map get_argv settings_keys\<rparr>)
               else (None,
                     w\<lparr>store := ?s, calls := calls w @ map get_argv settings_keys,
                       files := (files w)(''settings.json'' \<mapsto> File (Parses (JObj d)))\<rparr>))"
    using exporter_run [where progs = progs and run = run, OF Some valid]
    unfolding fin d_def by simp
  show ?thesis
  proof (cases "files w ''settings.json'' = Some Directory")
    case True
    then show ?thesis using ex by (simp add: importer_no_file)
  next
    case False
    let ?w6 = "w\<lparr>store := ?s, calls := calls w @ map get_argv settings_keys,
                 files := (files w)(''settings.json'' \<mapsto> File (Parses (JObj d)))\<rparr>"
    have doc: "files ?w6 ''settings.json'' = Some (File (Parses (JObj d)))" by simp
    have noop: "list_all (\<lambda>name. \<forall>v. map_of d name = Some (JStr v) \<longrightarrow>
                      fst (run (store ?w6) (set_argv name v)) = store ?w6) settings_keys"
      using law unfolding d by (simp add: round_trip_law_def settings_keys_def)
    have "store (snd (importer progs ?w6)) = store ?w6"
      unfolding importer_document [OF doc]
      by (rule write_all_noop [where progs = progs and run = run, OF Some noop])
    then show ?thesis using ex False by simp
  qed
qed

theorem export_import_round_trip_witness:
  "store (snd (importer installed (snd (exporter installed sys_saved)))) = desk \<and>
   store sys_saved = desk"
proof -
  have law: "round_trip_law run (store sys_saved)" if "installed ''gsettings'' = Some run" for run
    using that desk_law by (simp add: installed_def sys_saved_def)
  show ?thesis
    using export_import_round_trip [where progs = installed and w = sys_saved, OF law]
    by (simp add: sys_saved_def)
qed

text \<open>C2. Every run of the exporter either ends with an exception and changes no file,
  or ends normally, and then \<^verbatim>\<open>settings.json\<close> holds \<^term>\<open>captured\<close>: the five keys, in
  order, each mapped to the stripped standard output of its read query. Whatever the file
  held before is replaced, and no other file changes. The run ends normally whenever the
  utility is installed, every captured output decodes as UTF-8 and \<^verbatim>\<open>settings.json\<close>
  is not a directory.\<close>

theorem exporter_document:
  "(fst (exporter progs w) \<noteq> None \<longrightarrow> files (snd (exporter progs w)) = files w) \<and>
   (fst (exporter progs w) = None \<longrightarrow>
      (\<exists>run. progs ''gsettings'' = Some run \<and>
         files (snd (exporter progs w)) =
           (files w)(''settings.json'' \<mapsto> File (Parses (captured run (store w)))))) \<and>
   (\<forall>run. progs ''gsettings'' = Some run \<and>
      decodable (outputs run (store w) (map get_argv settings_keys)) \<and>
      files w ''settings.json'' \<noteq> Some Directory \<longrightarrow>
      fst (exporter progs w) = None)"
proof (intro conjI impI allI)
  assume "fst (exporter progs w) \<noteq> None"
  then show "files (snd (exporter progs w)) = files w"
    using exporter_failed by fastforce
next
  assume ok: "fst (exporter progs w) = None"
  then obtain run where run: "progs ''gsettings'' = Some run"
    and valid: "decodable (outputs run (store w) (map get_argv settings_keys))"
    and nodir: "files w ''settings.json'' \<noteq> Some Directory"
    using exporter_succeeded by blast
  have "files (snd (exporter progs w)) =
          (files w)(''settings.json'' \<mapsto> File (Parses (captured run (store w))))"
    using nodir
    by (simp add: exporter_run [where progs = progs and run = run,
                    OF run valid [unfolded decodable_def]] captured_def)
  then show "\<exists>run. progs ''gsettings'' = Some run \<and>
         files (snd (exporter progs w)) =
           (files w)(''settings.json'' \<mapsto> File (Parses (captured run (store w))))"
    using run by blast
next
  fix run
  assume a: "progs ''gsettings'' = Some run \<and>
      decodable (outputs run (store w) (map get_argv settings_keys)) \<and>
      files w ''settings.json'' \<noteq> Some Directory"
  then have valid: "list_all (\<lambda>b. utf8_valid (map of_char (strip b)))
                      (outputs run (store w) (map get_argv settings_keys))"
    by (simp add: decodable_def)
  show "fst (exporter progs w) = None"
    using a by (simp add: exporter_run [where progs = progs and run = run, OF _ valid])
qed

theorem exporter_document_witness:
  "files sys_saved ''settings.json'' = Some (File (Parses (JObj scenario))) \<and>
   fst (exporter installed sys_saved) = None \<and>
   files (snd (exporter installed sys_saved)) ''settings.json'' =
     Some (File (Parses (JObj
       [(''gtk_theme'', JStr ''Breeze-Dark''), (''icon_theme'', JStr []),
        (''cursor_theme'', JStr ''Breeze''), (''wallpaper'', JStr ''file:///old.png''),
        (''color_scheme'', JStr ''#000000'')])))"
proof -
  have valid: "decodable (outputs fake_gsettings (store sys_saved) (map get_argv settings_keys))"
    using desk_valid by (simp add: decodable_def sys_saved_def)
  have nodir: "files sys_saved ''settings.json'' \<noteq> Some Directory"
    by (simp add: sys_saved_def)
  have doc: "captured fake_gsettings (store sys_saved) =
               JObj [(''gtk_theme'', JStr ''Breeze-Dark''), (''icon_theme'', JStr []),
                     (''cursor_theme'', JStr ''Breeze''), (''wallpaper'', JStr ''file:///old.png''),
                     (''color_scheme'', JStr ''#000000'')]"
  proof -
    have st: "store sys_saved = desk" by (simp add: sys_saved_def)
    have keys: "settings_keys =
                  [''gtk_theme'', ''icon_theme'', ''cursor_theme'', ''wallpaper'', ''color_scheme'']"
      by (simp add: settings_keys_def)
    show ?thesis
      unfolding captured_def st desk_outputs
      by (subst keys) (simp add: strip_def is_space_def)
  qed
  have ok: "fst (exporter installed sys_saved) = None"
    using exporter_document [of installed sys_saved] installed_gsettings valid nodir by blast
  then have "files (snd (exporter installed sys_saved)) =
               (files sys_saved)(''settings.json'' \<mapsto>
                  File (Parses (captured fake_gsettings (store sys_saved))))"
    using exporter_document [of installed sys_saved] installed_gsettings by auto
  then show ?thesis using ok doc by (simp add: sys_saved_def)
qed

text \<open>C3. On a document that has all five keys, each holding a string that can be passed
  as an argument, and with the utility installed, the importer starts exactly five child
  processes: the five \<^verbatim>\<open>gsettings set\<close> invocations, one per key in the fixed order, each
  with the stored string as its last argument.\<close>

theorem importer_five_writes:
  assumes "files w ''settings.json'' = Some (File (Parses (JObj d)))"
    and "complete_document d"
    and "progs ''gsettings'' = Some run"
  shows "calls (snd (importer progs w)) =
           calls w @ map (\<lambda>name. set_argv name (stored d name)) settings_keys \<and>
         length (calls (snd (importer progs w))) = length (calls w) + 5"
proof -
  have five: "length settings_keys = 5" by (simp add: settings_keys_def)
  have all: "list_all (has_setting d) settings_keys"
    using assms(2) by (simp add: complete_document_def)
  have "calls (snd (importer progs w)) =
          calls w @ map (\<lambda>name. set_argv name (stored d name)) settings_keys"
    unfolding importer_document [OF assms(1)]
    by (simp add: write_all_ok [where progs = progs and run = run, OF assms(3) all])
  then show ?thesis using five by simp
qed

theorem importer_five_writes_witness:
  "calls (snd (importer installed sys_saved)) =
     [[''gsettings'', ''set'', ''org.gnome.desktop.interface'', ''gtk-theme'', ''Adwaita''],
      [''gsettings'', ''set'', ''org.gnome.desktop.interface'', ''icon-theme'', ''Papirus''],
      [''gsettings'', ''set'', ''org.gnome.desktop.interface'', ''cursor-theme'', ''Adwaita''],
      [''gsettings'', ''set'', ''org.gnome.desktop.background'', ''picture-uri'', ''file:///wall.png''],
      [''gsettings'', ''set'', terminal_profile, ''foreground-color'', ''#FFFFFF'']] \<and>
   length (calls (snd (importer installed sys_saved))) = 5"
proof -
  have doc: "files sys_saved ''settings.json'' = Some (File (Parses (JObj scenario)))"
    by (simp add: sys_saved_def)
  show ?thesis
    using importer_five_writes [where progs = installed and run = fake_gsettings,
            OF doc scenario_complete installed_gsettings]
    unfolding scenario_writes by (simp add: sys_saved_def)
qed

text \<open>C4 does not hold as stated: a document without \<^verbatim>\<open>icon_theme\<close> still gets its
  \<^verbatim>\<open>gtk_theme\<close> written to the store before the \<^verbatim>\<open>KeyError\<close> ends the run.\<close>

theorem importer_partial_document_counterexample:
  "fst (importer installed sys_partial) = Some (KeyError ''icon_theme'') \<and>
   calls (snd (importer installed sys_partial)) =
     [[''gsettings'', ''set'', ''org.gnome.desktop.interface'', ''gtk-theme'', ''Adwaita'']] \<and>
   map_of (store sys_partial) (''org.gnome.desktop.interface'', ''gtk-theme'') = Some ''Breeze-Dark'' \<and>
   map_of (store (snd (importer installed sys_partial)))
     (''org.gnome.desktop.interface'', ''gtk-theme'') = Some ''Adwaita''"
  by (simp add: importer_def open_r_def json_load_def write_setting_def subprocess_run_def
        installed_def fake_gsettings_def sys_partial_def partial_doc_def desk_def)

text \<open>C4, amended. Let the utility be installed, and let \<^verbatim>\<open>settings.json\<close> hold a JSON
  object that lacks at least one of the five keys and in which every one of the five keys
  that is present holds a string without a NUL character. Then the importer ends with
  \<^verbatim>\<open>KeyError\<close> for the first missing key in the fixed order. The writes for the keys
  before it have been issued, in order and with the stored values, and stay applied; no
  write is issued for the missing key or any later one. So the run fails before any write
  only when \<^verbatim>\<open>gtk_theme\<close> is the missing key.\<close>

theorem importer_stops_at_first_missing_key:
  assumes "files w ''settings.json'' = Some (File (Parses (JObj d)))"
    and "progs ''gsettings'' = Some run"
    and "list_all (\<lambda>name. map_of d name = None \<or> has_setting d name) settings_keys"
    and "list_ex (\<lambda>name. map_of d name = None) settings_keys"
  shows "importer progs w =
           (Some (KeyError (hd (dropWhile (\<lambda>name. map_of d name \<noteq> None) settings_keys))),
            w\<lparr>store := final_store run (store w)
                         (map (\<lambda>name. set_argv name (stored d name))
                            (takeWhile (\<lambda>name. map_of d name \<noteq> None) settings_keys)),
              calls := calls w @ map (\<lambda>name. set_argv name (stored d name))
                         (takeWhile (\<lambda>name. map_of d name \<noteq> None) settings_keys)\<rparr>)"
  unfolding importer_document [OF assms(1)]
  by (rule write_all_missing [where progs = progs and run = run, OF assms(2,3,4)])

theorem importer_stops_at_first_missing_key_witness:
  "importer installed sys_partial =
     (Some (KeyError ''icon_theme''),
      sys_partial
        \<lparr>store :=
           [((''org.gnome.desktop.interface'', ''gtk-theme''), ''Adwaita''),
            ((''org.gnome.desktop.interface'', ''cursor-theme''), ''Breeze''),
            ((''org.gnome.desktop.background'', ''picture-uri''), ''file:///old.png''),
            ((terminal_profile, ''foreground-color''), ''#000000'')],
         calls :=
           [[''gsettings'', ''set'', ''org.gnome.desktop.interface'', ''gtk-theme'',
             ''Adwaita'']]\<rparr>)"
proof -
  have doc: "files sys_partial ''settings.json'' = Some (File (Parses (JObj partial_doc)))"
    by (simp add: sys_partial_def)
  have typed: "list_all (\<lambda>name. map_of partial_doc name = None \<or> has_setting partial_doc name)
                 settings_keys"
    by (simp add: settings_keys_def has_setting_def partial_doc_def)
  have missing: "list_ex (\<lambda>name. map_of partial_doc name = None) settings_keys"
    by (simp add: settings_keys_def partial_doc_def)
  have present: "takeWhile (\<lambda>name. map_of partial_doc name \<noteq> None) settings_keys = [''gtk_theme'']"
    by (simp add: settings_keys_def partial_doc_def)
  have first: "dropWhile (\<lambda>name. map_of partial_doc name \<noteq> None) settings_keys =
                 [''icon_theme'', ''cursor_theme'', ''wallpaper'', ''color_scheme'']"
    by (simp add: settings_keys_def partial_doc_def)
  have arg: "set_argv ''gtk_theme'' (stored partial_doc ''gtk_theme'') =
               [''gsettings'', ''set'', ''org.gnome.desktop.interface'', ''gtk-theme'', ''Adwaita'']"
    by (simp add: set_argv_def target_def stored_def partial_doc_def)
  have applied: "final_store fake_gsettings desk
                   [[''gsettings'', ''set'', ''org.gnome.desktop.interface'', ''gtk-theme'',
                     ''Adwaita'']] =
           [((''org.gnome.desktop.interface'', ''gtk-theme''), ''Adwaita''),
            ((''org.gnome.desktop.interface'', ''cursor-theme''), ''Breeze''),
            ((''org.gnome.desktop.background'', ''picture-uri''), ''file:///old.png''),
            ((terminal_profile, ''foreground-color''), ''#000000'')]"
    by (simp add: final_store_def fake_gsettings_def desk_def)
  show ?thesis
    using importer_stops_at_first_missing_key
            [where progs = installed and run = fake_gsettings,
             OF doc installed_gsettings typed missing]
    unfolding present first by (simp add: arg applied sys_partial_def)
qed

text \<open>C5 does not hold as stated: when the utility is not installed, the first read raises
  \<^verbatim>\<open>FileNotFoundError\<close> and no document is written.\<close>

theorem exporter_missing_tool_counterexample:
  "fst (exporter not_installed sys_fresh) = Some FileNotFoundError \<and>
   files (snd (exporter not_installed sys_fresh)) ''settings.json'' = None"
  by (simp add: exporter_not_installed not_installed_def sys_fresh_def)

text \<open>C5, amended. When the utility is not installed the exporter ends with
  \<^verbatim>\<open>FileNotFoundError\<close> and leaves the world as it was. When it is installed and some read
  exits with a nonzero status, the exporter raises nothing and writes a document with all
  five keys, each mapped to the stripped output that was captured, empty or not (every
  captured output decodes as UTF-8 and \<^verbatim>\<open>settings.json\<close> is not a directory).\<close>

theorem exporter_absorbs_failed_query:
  "(progs ''gsettings'' = None \<longrightarrow> exporter progs w = (Some FileNotFoundError, w)) \<and>
   (\<forall>run. progs ''gsettings'' = Some run \<and>
       list_ex (\<lambda>rc. rc \<noteq> 0) (exits run (store w) (map get_argv settings_keys)) \<and>
       list_all (\<lambda>b. utf8_valid (map of_char (strip b)))
         (outputs run (store w) (map get_argv settings_keys)) \<and>
       files w ''settings.json'' \<noteq> Some Directory \<longrightarrow>
       fst (exporter progs w) = None \<and>
       (\<exists>d. files (snd (exporter progs w)) ''settings.json'' = Some (File (Parses (JObj d))) \<and>
            map fst d = settings_keys \<and>
            map snd d = map (\<lambda>b. JStr (strip b))
                          (outputs run (store w) (map get_argv settings_keys))))"
proof (intro conjI impI allI)
  assume "progs ''gsettings'' = None"
  then show "exporter progs w = (Some FileNotFoundError, w)" by (rule exporter_not_installed)
next
  fix run
  assume a: "progs ''gsettings'' = Some run \<and>
       list_ex (\<lambda>rc. rc \<noteq> 0) (exits run (store w) (map get_argv settings_keys)) \<and>
       list_all (\<lambda>b. utf8_valid (map of_char (strip b)))
         (outputs run (store w) (map get_argv settings_keys)) \<and>
       files w ''settings.json'' \<noteq> Some Directory"
  have len: "length (outputs run s as) = length as" for s as
    by (induction as arbitrary: s) simp_all
  have run: "exporter progs w =
           (None,
                  w\<lparr>store := final_store run (store w) (map get_argv settings_keys),
                    calls := calls w @ map get_argv settings_keys,
                    files := (files w)(''settings.json'' \<mapsto> File (Parses (JObj
                      (zip settings_keys (map (\<lambda>b. JStr (strip b))
                         (outputs run (store w) (map get_argv settings_keys)))))))\<rparr>)"
    using a by (simp add: exporter_run [where progs = progs and run = run])
  show "fst (exporter progs w) = None" using run by simp
  have "files (snd (exporter progs w)) ''settings.json'' =
          Some (File (Parses (JObj (zip settings_keys (map (\<lambda>b. JStr (strip b))
                         (outputs run (store w) (map get_argv settings_keys)))))))"
    using run by simp
  moreover have "map fst (zip settings_keys (map (\<lambda>b. JStr (strip b))
                         (outputs run (store w) (map get_argv settings_keys)))) = settings_keys"
    by (simp add: len)
  moreover have "map snd (zip settings_keys (map (\<lambda>b. JStr (strip b))
                         (outputs run (store w) (map get_argv settings_keys))))
                 = map (\<lambda>b. JStr (strip b)) (outputs run (store w) (map get_argv settings_keys))"
    by (simp add: len)
  ultimately show "\<exists>d. files (snd (exporter progs w)) ''settings.json'' = Some (File (Parses (JObj d))) \<and>
            map fst d = settings_keys \<and>
            map snd d = map (\<lambda>b. JStr (strip b))
                          (outputs run (store w) (map get_argv settings_keys))"
    by blast
qed

theorem exporter_absorbs_failed_query_witness:
  "exits fake_gsettings (store sys_fresh) (map get_argv settings_keys) = [0, 1, 0, 0, 0] \<and>
   fst (exporter installed sys_fresh) = None \<and>
   (\<exists>d. files (snd (exporter installed sys_fresh)) ''settings.json'' = Some (File (Parses (JObj d))) \<and>
        map fst d = settings_keys \<and>
        map snd d = map JStr [''Breeze-Dark'', [], ''Breeze'', ''file:///old.png'', ''#000000'']) \<and>
   exporter not_installed sys_fresh = (Some FileNotFoundError, sys_fresh)"
proof -
  have st: "store sys_fresh = desk" by (simp add: sys_fresh_def)
  have failed: "list_ex (\<lambda>rc. rc \<noteq> 0)
                  (exits fake_gsettings (store sys_fresh) (map get_argv settings_keys))"
    unfolding st desk_exits by simp
  have valid: "list_all (\<lambda>b. utf8_valid (map of_char (strip b)))
                 (outputs fake_gsettings (store sys_fresh) (map get_argv settings_keys))"
    unfolding st by (rule desk_valid)
  have nodir: "files sys_fresh ''settings.json'' \<noteq> Some Directory"
    by (simp add: sys_fresh_def)
  have outs: "map (\<lambda>b. JStr (strip b))
                (outputs fake_gsettings desk (map get_argv settings_keys)) =
              [JStr ''Breeze-Dark'', JStr [], JStr ''Breeze'', JStr ''file:///old.png'',
               JStr ''#000000'']"
    by (simp add: desk_outputs strip_def is_space_def)
  have missing: "not_installed ''gsettings'' = None" by (simp add: not_installed_def)
  show ?thesis
    using exporter_absorbs_failed_query [of installed sys_fresh]
      exporter_absorbs_failed_query [of not_installed sys_fresh]
      installed_gsettings failed valid nodir missing
    by (simp add: st desk_exits outs)
qed

text \<open>C6. When \<^verbatim>\<open>settings.json\<close> does not exist or does not parse, the importer ends
  with an exception (\<^verbatim>\<open>FileNotFoundError\<close>, \<^verbatim>\<open>JSONDecodeError\<close>) and the world is as it
  was: no child process was started and the store is unchanged.\<close>

theorem importer_aborts_without_document:
  assumes "files w ''settings.json'' = None \<or> files w ''settings.json'' = Some (File Unparseable)"
  shows "importer progs w =
           (Some (if files w ''settings.json'' = None then FileNotFoundError else JSONDecodeError), w)"
  using assms by (auto simp: importer_def open_r_def json_load_def)

theorem importer_aborts_without_document_witness:
  "importer installed sys_fresh = (Some FileNotFoundError, sys_fresh) \<and>
   importer installed sys_garbled = (Some JSONDecodeError, sys_garbled)"
proof -
  have a: "files sys_fresh ''settings.json'' = None
             \<or> files sys_fresh ''settings.json'' = Some (File Unparseable)"
    by (simp add: sys_fresh_def)
  have b: "files sys_garbled ''settings.json'' = None
             \<or> files sys_garbled ''settings.json'' = Some (File Unparseable)"
    by (simp add: sys_garbled_def)
  have fa: "files sys_fresh ''settings.json'' = None" by (simp add: sys_fresh_def)
  have fb: "files sys_garbled ''settings.json'' \<noteq> None" by (simp add: sys_garbled_def)
  show ?thesis
    using importer_aborts_without_document [OF a, of installed]
      importer_aborts_without_document [OF b, of installed] fa fb
    by simp
qed

text \<open>C7, evaluated on a system whose default terminal profile is \<^verbatim>\<open>b1dcc9dd\<close> with
  foreground colour \<^verbatim>\<open>#AAAAAA\<close>. The schema argument of the fifth read and of the fifth
  write is the literal \<^term>\<open>terminal_profile\<close>, with \<^verbatim>\<open>$(\<close> still in it at position 72:
  no shell has replaced the substitution. Neither script ever runs the profile-list query,
  and the import leaves the colour of the default profile as it was.\<close>

theorem profile_lookup_is_not_evaluated:
  "calls (snd (exporter installed sys_profile)) ! 4 =
     [''gsettings'', ''get'', terminal_profile, ''foreground-color''] \<and>
   calls (snd (importer installed sys_profile)) ! 4 =
     [''gsettings'', ''set'', terminal_profile, ''foreground-color'', ''#FFFFFF''] \<and>
   take 2 (drop 72 terminal_profile) = ''$('' \<and>
   [''gsettings'', ''get'', ''org.gnome.Terminal.ProfilesList'', ''default'']
     \<notin> set (calls (snd (exporter installed sys_profile))) \<and>
   [''gsettings'', ''get'', ''org.gnome.Terminal.ProfilesList'', ''default'']
     \<notin> set (calls (snd (importer installed sys_profile))) \<and>
   map_of (store sys_profile)
     (''org.gnome.Terminal.Legacy.Profile:/org/gnome/terminal/legacy/profiles:/:b1dcc9dd/'',
      ''foreground-color'') = Some ''#AAAAAA'' \<and>
   map_of (store (snd (importer installed sys_profile)))
     (''org.gnome.Terminal.Legacy.Profile:/org/gnome/terminal/legacy/profiles:/:b1dcc9dd/'',
      ''foreground-color'') = Some ''#AAAAAA''"
proof -
  have st: "store sys_profile = desk_b" by (simp add: sys_profile_def)
  have valid: "list_all (\<lambda>b. utf8_valid (map of_char (strip b)))
                 (outputs fake_gsettings (store sys_profile) (map get_argv settings_keys))"
    unfolding st
    by (simp add: settings_keys_def get_argv_def target_def fake_gsettings_def desk_b_def
          terminal_profile_def strip_def)
  have ex: "calls (snd (exporter installed sys_profile)) = map get_argv settings_keys"
    using exporter_run [where progs = installed and run = fake_gsettings and w = sys_profile,
            OF installed_gsettings valid]
    by (simp add: sys_profile_def)
  have doc: "files sys_profile ''settings.json'' = Some (File (Parses (JObj scenario)))"
    by (simp add: sys_profile_def)
  have cs: "calls sys_profile = []" by (simp add: sys_profile_def)
  have "list_all (has_setting scenario) settings_keys"
    using scenario_complete by (simp add: complete_document_def)
  then have "write_all installed (JObj scenario) settings_keys sys_profile =
          (None, sys_profile\<lparr>store := final_store fake_gsettings (store sys_profile)
                                   (map (\<lambda>n. set_argv n (stored scenario n)) settings_keys),
                   calls := calls sys_profile
                              @ map (\<lambda>n. set_argv n (stored scenario n)) settings_keys\<rparr>)"
    by (rule write_all_ok [where progs = installed and run = fake_gsettings,
               OF installed_gsettings])
  then have im: "importer installed sys_profile =
              (None, sys_profile\<lparr>store := final_store fake_gsettings desk_b
                                   (map (\<lambda>n. set_argv n (stored scenario n)) settings_keys),
                       calls := map (\<lambda>n. set_argv n (stored scenario n)) settings_keys\<rparr>)"
    unfolding importer_document [OF doc] st cs by simp
  have fin: "final_store fake_gsettings desk_b
               (map (\<lambda>n. set_argv n (stored scenario n)) settings_keys) = desk_b"
    unfolding scenario_writes
    by (simp add: final_store_def fake_gsettings_def desk_b_def terminal_profile_def)
  have gets: "map get_argv settings_keys =
     [[''gsettings'', ''get'', ''org.gnome.desktop.interface'', ''gtk-theme''],
      [''gsettings'', ''get'', ''org.gnome.desktop.interface'', ''icon-theme''],
      [''gsettings'', ''get'', ''org.gnome.desktop.interface'', ''cursor-theme''],
      [''gsettings'', ''get'', ''org.gnome.desktop.background'', ''picture-uri''],
      [''gsettings'', ''get'', terminal_profile, ''foreground-color'']]"
    by (simp add: settings_keys_def get_argv_def target_def)
  have lit: "take 2 (drop 72 terminal_profile) = ''$(''"
    by (simp add: terminal_profile_def)
  have im': "importer installed sys_profile =
               (None, sys_profile\<lparr>store := desk_b,
                        calls := map (\<lambda>n. set_argv n (stored scenario n)) settings_keys\<rparr>)"
    using im unfolding fin .
  show ?thesis
    unfolding ex im' gets scenario_writes
    by (simp add: lit st desk_b_def)
qed

text \<open>C8. After any run of the exporter, either no file has changed, or
  \<^verbatim>\<open>settings.json\<close> holds a document whose keys are exactly the five keys, in order.\<close>

theorem exporter_never_writes_partial_record:
  "files (snd (exporter progs w)) = files w \<or>
   (\<exists>d. files (snd (exporter progs w)) =
           (files w)(''settings.json'' \<mapsto> File (Parses (JObj d))) \<and>
        map fst d = settings_keys)"
proof (cases "read_all progs settings_keys [] w")
  case (Pair r w')
  have fw': "files w' = files w" using read_all_files [of progs settings_keys "[]" w] Pair by simp
  show ?thesis
  proof (cases r)
    case (Inl e)
    then show ?thesis using Pair fw' by (simp add: exporter_unroll)
  next
    case (Inr d)
    have "distinct (map fst ([] :: (string \<times> json) list) @ settings_keys)"
      by (simp add: settings_keys_def)
    then have keys: "map fst d = settings_keys"
      using read_all_keys [of progs settings_keys "[]" w d w'] Pair Inr by simp
    show ?thesis
    proof (cases "files w ''settings.json'' = Some Directory")
      case True
      then show ?thesis using Pair Inr fw' by (simp add: exporter_unroll open_w_def)
    next
      case False
      then have "files (snd (exporter progs w)) =
                   (files w)(''settings.json'' \<mapsto> File (Parses (JObj d)))"
        using Pair Inr fw'
        by (simp add: exporter_unroll open_w_def json_dump_def split: option.splits node.splits)
      then show ?thesis using keys by blast
    qed
  qed
qed

theorem exporter_never_writes_partial_record_witness:
  "files sys_fresh ''settings.json'' = None \<and>
   (\<exists>d. files (snd (exporter installed sys_fresh)) ''settings.json'' =
          Some (File (Parses (JObj d))) \<and>
        map fst d = settings_keys)"
proof -
  have before: "files sys_fresh ''settings.json'' = None" by (simp add: sys_fresh_def)
  have valid: "list_all (\<lambda>b. utf8_valid (map of_char (strip b)))
                 (outputs fake_gsettings (store sys_fresh) (map get_argv settings_keys))"
    using desk_valid by (simp add: sys_fresh_def)
  have "files (snd (exporter installed sys_fresh)) ''settings.json'' \<noteq> None"
    using before
    by (simp add: exporter_run [where progs = installed and run = fake_gsettings,
                    OF installed_gsettings valid])
  then have changed: "files (snd (exporter installed sys_fresh)) \<noteq> files sys_fresh"
    using before by auto
  show ?thesis
    using exporter_never_writes_partial_record [of installed sys_fresh] changed before
    by auto
qed

text \<open>C9. On a document with all five keys (strings that can be passed as arguments) and
  with the utility installed, a write that exits with a nonzero status does not end the
  run: the importer ends without an exception, all five writes have been started in
  order, and the store is what the five invocations leave one after the other; nothing is
  rolled back.\<close>

theorem importer_continues_after_failed_write:
  assumes "files w ''settings.json'' = Some (File (Parses (JObj d)))"
    and "complete_document d"
    and "progs ''gsettings'' = Some run"
    and "list_ex (\<lambda>rc. rc \<noteq> 0)
           (exits run (store w) (map (\<lambda>name. set_argv name (stored d name)) settings_keys))"
  shows "importer progs w =
           (None, w\<lparr>store := final_store run (store w)
                               (map (\<lambda>name. set_argv name (stored d name)) settings_keys),
                    calls := calls w @ map (\<lambda>name. set_argv name (stored d name)) settings_keys\<rparr>)"
  using assms(2)
  by (simp add: importer_document [OF assms(1)] complete_document_def
        write_all_ok [where progs = progs and run = run, OF assms(3)])

theorem importer_continues_after_failed_write_witness:
  "exits fake_gsettings (store sys_saved)
     (map (\<lambda>name. set_argv name (stored scenario name)) settings_keys) = [0, 1, 0, 0, 0] \<and>
   fst (importer installed sys_saved) = None \<and>
   length (calls (snd (importer installed sys_saved))) = 5 \<and>
   store (snd (importer installed sys_saved)) =
     [((''org.gnome.desktop.interface'', ''gtk-theme''), ''Adwaita''),
      ((''org.gnome.desktop.interface'', ''cursor-theme''), ''Adwaita''),
      ((''org.gnome.desktop.background'', ''picture-uri''), ''file:///wall.png''),
      ((terminal_profile, ''foreground-color''), ''#FFFFFF'')]"
proof -
  have doc: "files sys_saved ''settings.json'' = Some (File (Parses (JObj scenario)))"
    by (simp add: sys_saved_def)
  have st: "store sys_saved = desk" by (simp add: sys_saved_def)
  have failed: "list_ex (\<lambda>rc. rc \<noteq> 0)
                  (exits fake_gsettings (store sys_saved)
                     (map (\<lambda>name. set_argv name (stored scenario name)) settings_keys))"
    unfolding st scenario_exits by simp
  show ?thesis
    using importer_continues_after_failed_write
            [where progs = installed and run = fake_gsettings,
             OF doc scenario_complete installed_gsettings failed]
    unfolding st scenario_exits scenario_final_store by (simp add: sys_saved_def settings_keys_def)
qed

text \<open>C10. Every child process the exporter starts is a \<^verbatim>\<open>gsettings get\<close> with a schema
  and a key; and if the utility's reads of the five settings leave the store as it is,
  the exporter leaves the store as it is.\<close>

theorem exporter_only_reads:
  "\<exists>cs. calls (snd (exporter progs w)) = calls w @ cs \<and>
        list_all (\<lambda>c. length c = 4 \<and> c ! 0 = ''gsettings'' \<and> c ! 1 = ''get'') cs \<and>
        ((\<forall>run. progs ''gsettings'' = Some run \<longrightarrow>
             list_all (\<lambda>name. fst (run (store w) (get_argv name)) = store w) settings_keys)
         \<longrightarrow> store (snd (exporter progs w)) = store w)"
proof -
  obtain n where n: "calls (snd (exporter progs w)) = calls w @ take n (map get_argv settings_keys)"
    using exporter_calls by blast
  have gets: "list_all (\<lambda>c. length c = 4 \<and> c ! 0 = ''gsettings'' \<and> c ! 1 = ''get'')
                (take n (map get_argv settings_keys))"
    using get_argv_is_get [of settings_keys] by (rule list_all_take)
  have "store (snd (exporter progs w)) = store w"
    if "\<forall>run. progs ''gsettings'' = Some run \<longrightarrow>
          list_all (\<lambda>name. fst (run (store w) (get_argv name)) = store w) settings_keys"
    using that by (simp add: exporter_store read_all_store)
  then show ?thesis using n gets by blast
qed

theorem exporter_only_reads_witness:
  "(\<exists>cs. calls (snd (exporter installed sys_saved)) = calls sys_saved @ cs \<and>
         list_all (\<lambda>c. length c = 4 \<and> c ! 0 = ''gsettings'' \<and> c ! 1 = ''get'') cs) \<and>
   store (snd (exporter installed sys_saved)) = store sys_saved"
proof -
  have ro: "\<forall>run. installed ''gsettings'' = Some run \<longrightarrow>
              list_all (\<lambda>name. fst (run (store sys_saved) (get_argv name)) = store sys_saved)
                settings_keys"
    by (simp add: installed_def settings_keys_def get_argv_def fake_gsettings_def
          split: option.splits)
  show ?thesis using exporter_only_reads [of installed sys_saved] ro by blast
qed

end
